theory Spec2Isabelle
  imports Complex_Main "HOL-Library.Sublist"
begin

section \<open>JavaScript values\<close>

text \<open>
  The classifier \<^verbatim>\<open>extractErrorMessage(error: any)\<close> of
  \<^verbatim>\<open>frontend/src/error-handler.ts\<close> accepts every JavaScript value, so the model
  starts with the values themselves.

  A number is an IEEE double. The code only tests a number for truthiness and compares
  it with the integer literals of a \<^verbatim>\<open>switch\<close>; for both, a double is its exact
  rational value (\<open>-0\<close> and \<open>+0\<close> are identified: \<^verbatim>\<open>===\<close> and truthiness do not tell
  them apart), or one of \<open>NaN\<close>, \<open>Infinity\<close>, \<open>-Infinity\<close>.
\<close>

datatype jsnum = NaN | PosInfinity | NegInfinity | Finite rat

text \<open>
  An object carries the part of its prototype chain that the code can observe:
  \<^verbatim>\<open>instanceof Error\<close>, \<^verbatim>\<open>instanceof BillingError\<close> and
  \<^verbatim>\<open>typeof\<close>. \<open>ObjectProto\<close> stands for every chain that does not pass through
  \<^verbatim>\<open>Error.prototype\<close> and is not callable (plain objects, arrays, a fetch
  \<^verbatim>\<open>Response\<close>); \<open>FunctionProto\<close> for callable objects; \<open>ErrorProto\<close> for
  \<^verbatim>\<open>Error\<close> and its subclasses other than \<^verbatim>\<open>BillingError\<close>;
  \<open>BillingErrorProto\<close> for \<^verbatim>\<open>BillingError\<close>, which extends \<^verbatim>\<open>Error\<close>.
\<close>

datatype proto = ObjectProto | FunctionProto | ErrorProto | BillingErrorProto

text \<open>
  An object's own properties are data properties, in an association list (the first
  entry for a key is the one read). Accessor properties and proxies, whose reads run
  arbitrary code, are outside this model.
\<close>

datatype jsval =
    JUndefined
  | JNull
  | JBool bool
  | JNum jsnum
  | JBigInt int
  | JStr string
  | JSymbol nat
  | JObj proto "(string \<times> jsval) list"

datatype js_error = TypeError

definition thenE :: "js_error + 'a \<Rightarrow> ('a \<Rightarrow> js_error + 'b) \<Rightarrow> js_error + 'b" where
  "thenE r f = (case r of Inl e \<Rightarrow> Inl e | Inr x \<Rightarrow> f x)"

text \<open>Truthiness (ToBoolean): what \<^verbatim>\<open>if (x)\<close> and \<^verbatim>\<open>x || y\<close> test.\<close>

fun truthy :: "jsval \<Rightarrow> bool" where
  "truthy JUndefined = False"
| "truthy JNull = False"
| "truthy (JBool b) = b"
| "truthy (JNum n) = (n \<noteq> NaN \<and> n \<noteq> Finite 0)"
| "truthy (JBigInt i) = (i \<noteq> 0)"
| "truthy (JStr s) = (s \<noteq> [])"
| "truthy (JSymbol _) = True"
| "truthy (JObj _ _) = True"

fun nullish :: "jsval \<Rightarrow> bool" where
  "nullish JUndefined = True"
| "nullish JNull = True"
| "nullish _ = False"

fun typeof :: "jsval \<Rightarrow> string" where
  "typeof JUndefined = ''undefined''"
| "typeof JNull = ''object''"
| "typeof (JBool _) = ''boolean''"
| "typeof (JNum _) = ''number''"
| "typeof (JBigInt _) = ''bigint''"
| "typeof (JStr _) = ''string''"
| "typeof (JSymbol _) = ''symbol''"
| "typeof (JObj p _) = (if p = FunctionProto then ''function'' else ''object'')"

text \<open>
  What a prototype chain answers for a key that is not an own property.
  \<^verbatim>\<open>Error.prototype\<close> defines \<^verbatim>\<open>message\<close> (the empty string) and
  \<^verbatim>\<open>name\<close>; no built-in prototype defines \<^verbatim>\<open>detail\<close>, \<^verbatim>\<open>response\<close>,
  \<^verbatim>\<open>status\<close> or \<^verbatim>\<open>error\<close>. The answer is exact for the keys the code reads.
\<close>

definition proto_prop :: "proto \<Rightarrow> string \<Rightarrow> jsval" where
  "proto_prop p k =
     (if p = ErrorProto \<or> p = BillingErrorProto then
        (if k = ''message'' then JStr ''''
         else if k = ''name'' then JStr ''Error''
         else JUndefined)
      else JUndefined)"

text \<open>
  Reading property \<open>k\<close> of a value that is neither \<^verbatim>\<open>null\<close> nor
  \<^verbatim>\<open>undefined\<close>. A primitive is boxed; its prototype has none of the keys the code
  reads.
\<close>

fun lookup_prop :: "jsval \<Rightarrow> string \<Rightarrow> jsval" where
  "lookup_prop (JObj p fs) k = (case map_of fs k of Some x \<Rightarrow> x | None \<Rightarrow> proto_prop p k)"
| "lookup_prop _ k = JUndefined"

text \<open>\<^verbatim>\<open>v.k\<close>: a TypeError on \<^verbatim>\<open>null\<close> and \<^verbatim>\<open>undefined\<close>.\<close>

definition get :: "jsval \<Rightarrow> string \<Rightarrow> js_error + jsval" where
  "get v k = (if nullish v then Inl TypeError else Inr (lookup_prop v k))"

text \<open>\<^verbatim>\<open>v?.k\<close>: \<^verbatim>\<open>undefined\<close> on \<^verbatim>\<open>null\<close> and \<^verbatim>\<open>undefined\<close>.\<close>

definition optget :: "jsval \<Rightarrow> string \<Rightarrow> jsval" where
  "optget v k = (if nullish v then JUndefined else lookup_prop v k)"

text \<open>
  \<^verbatim>\<open>x instanceof C\<close> walks the prototype chain of an object and is false for a
  primitive. In \<^verbatim>\<open>error-handler.ts\<close> the name \<^verbatim>\<open>BillingError\<close> is used without
  an import in the lines at hand; it is taken to be the class that \<^verbatim>\<open>lib/api.ts\<close>
  exports.
\<close>

fun instanceof_Error :: "jsval \<Rightarrow> bool" where
  "instanceof_Error (JObj p _) = (p = ErrorProto \<or> p = BillingErrorProto)"
| "instanceof_Error _ = False"

fun instanceof_BillingError :: "jsval \<Rightarrow> bool" where
  "instanceof_BillingError (JObj p _) = (p = BillingErrorProto)"
| "instanceof_BillingError _ = False"

section \<open>The error classifier (error-handler.ts)\<close>

text \<open>
  \<^verbatim>\<open>getStatusMessage\<close>: a \<^verbatim>\<open>switch\<close> compares with \<^verbatim>\<open>===\<close>, so only the
  number itself selects a case. The argument is whatever the caller read from an
  \<^verbatim>\<open>any\<close>, hence a \<open>jsval\<close>.
\<close>

definition getStatusMessage :: "jsval \<Rightarrow> string" where
  "getStatusMessage status =
     (if status = JNum (Finite 400) then ''Invalid request. Please check your input and try again.''
      else if status = JNum (Finite 401) then ''Authentication required. Please sign in again.''
      else if status = JNum (Finite 403) then
        ''Access denied. You don't have permission to perform this action.''
      else if status = JNum (Finite 404) then ''The requested resource was not found.''
      else if status = JNum (Finite 408) then ''Request timeout. Please try again.''
      else if status = JNum (Finite 409) then
        ''Conflict detected. The resource may have been modified by another user.''
      else if status = JNum (Finite 422) then ''Invalid data provided. Please check your input.''
      else if status = JNum (Finite 429) then
        ''Too many requests. Please wait a moment and try again.''
      else if status = JNum (Finite 500) then ''Server error. Our team has been notified.''
      else if status = JNum (Finite 502) then
        ''Service temporarily unavailable. Please try again in a moment.''
      else if status = JNum (Finite 503) then
        ''Service maintenance in progress. Please try again later.''
      else if status = JNum (Finite 504) then
        ''Request timeout. The server took too long to respond.''
      else ''An unexpected error occurred. Please try again.'')"

text \<open>
  \<^verbatim>\<open>extractErrorMessage\<close>, rule by rule in the order of the source. A condition written
  with \<^verbatim>\<open>?.\<close> is \<open>optget\<close>; a read written with a plain dot is \<open>get\<close> and can raise.
  The declared return type \<^verbatim>\<open>string\<close> is not checked at run time (the argument is
  \<^verbatim>\<open>any\<close>), so the result is a \<open>jsval\<close>.
\<close>

definition extractErrorMessage :: "jsval \<Rightarrow> js_error + jsval" where
  "extractErrorMessage error =
     (if instanceof_BillingError error then
        thenE (get error ''detail'') (\<lambda>detail.
          if truthy (optget detail ''message'') then Inr (optget detail ''message'')
          else thenE (get error ''message'') (\<lambda>message.
            if truthy message then Inr message
            else Inr (JStr ''Billing issue detected'')))
      else if instanceof_Error error then get error ''message''
      else if truthy (optget error ''response'') then
        thenE (get error ''response'') (\<lambda>response.
          thenE (get response ''status'') (\<lambda>status.
            Inr (JStr (getStatusMessage status))))
      else if truthy (optget error ''status'') then
        thenE (get error ''status'') (\<lambda>status. Inr (JStr (getStatusMessage status)))
      else if typeof error = ''string'' then Inr error
      else if truthy (optget error ''message'') then get error ''message''
      else if truthy (optget error ''error'') then
        thenE (get error ''error'') (\<lambda>tested.
          if typeof tested = ''string'' then get error ''error''
          else thenE (get error ''error'') (\<lambda>inner.
            thenE (get inner ''message'') (\<lambda>message.
              if truthy message then Inr message else Inr (JStr ''Unknown error''))))
      else Inr (JStr ''An unexpected error occurred''))"

section \<open>The billing error (lib/api.ts)\<close>

text \<open>
  The constructor of \<^verbatim>\<open>BillingError\<close> converts values to strings in two places: the
  template literal \<^verbatim>\<open>`Billing Error: ${status}`\<close>, and the constructor of
  \<^verbatim>\<open>Error\<close>, which stores \<^verbatim>\<open>String(message)\<close>. The conversion of a string is
  the string. The conversion of a number is a built-in that always returns
  (\<open>num_str\<close>, a parameter); the conversion of any other value is a built-in that may
  run the value's own \<^verbatim>\<open>toString\<close> or raise (\<open>other_str\<close>, a parameter).
\<close>

definition ToString ::
  "(jsnum \<Rightarrow> string) \<Rightarrow> (jsval \<Rightarrow> js_error + string) \<Rightarrow> jsval \<Rightarrow> js_error + string" where
  "ToString num_str other_str v =
     (case v of
        JStr s \<Rightarrow> Inr s
      | JNum n \<Rightarrow> Inr (num_str n)
      | _ \<Rightarrow> other_str v)"

text \<open>An assignment \<^verbatim>\<open>this.k = v\<close>: the newest entry for a key is the one read.\<close>

definition assign :: "(string \<times> jsval) list \<Rightarrow> string \<Rightarrow> jsval \<Rightarrow> (string \<times> jsval) list" where
  "assign fs k v = (k, v) # fs"

text \<open>
  \<^verbatim>\<open>super(message)\<close>: the own properties of a fresh \<^verbatim>\<open>Error\<close>. An
  \<^verbatim>\<open>undefined\<close> message leaves the property to the prototype. (The non-standard
  \<^verbatim>\<open>stack\<close> property is not modelled; nothing in the sources reads it.)
\<close>

definition Error_init ::
  "(jsnum \<Rightarrow> string) \<Rightarrow> (jsval \<Rightarrow> js_error + string) \<Rightarrow> jsval
    \<Rightarrow> js_error + (string \<times> jsval) list" where
  "Error_init num_str other_str message =
     (if message = JUndefined then Inr []
      else thenE (ToString num_str other_str message) (\<lambda>s. Inr [(''message'', JStr s)]))"

text \<open>
  \<^verbatim>\<open>new BillingError(status, detail, message)\<close>. The operator \<^verbatim>\<open>||\<close> evaluates its
  right operand only when the left one is falsy, so \<^verbatim>\<open>detail.message\<close> is read (and
  can raise) only then. An omitted \<^verbatim>\<open>message\<close> is \<open>JUndefined\<close>.
\<close>

definition new_BillingError ::
  "(jsnum \<Rightarrow> string) \<Rightarrow> (jsval \<Rightarrow> js_error + string) \<Rightarrow> jsval \<Rightarrow> jsval \<Rightarrow> jsval
    \<Rightarrow> js_error + jsval" where
  "new_BillingError num_str other_str status detail message =
     thenE
       (if truthy message then Inr message
        else thenE (get detail ''message'') (\<lambda>detail_message.
          if truthy detail_message then Inr detail_message
          else thenE (ToString num_str other_str status) (\<lambda>s.
            Inr (JStr (''Billing Error: '' @ s)))))
       (\<lambda>super_argument.
          thenE (Error_init num_str other_str super_argument) (\<lambda>this0.
            let this1 = assign this0 ''name'' (JStr ''BillingError'');
                this2 = assign this1 ''status'' status;
                this3 = assign this2 ''detail'' detail
            in Inr (JObj BillingErrorProto this3)))"

section \<open>The authentication client factory\<close>

text \<open>
  \<^verbatim>\<open>createClient\<close>. The two environment values are strings or \<^verbatim>\<open>undefined\<close>
  (\<open>None\<close>); the non-null assertion \<^verbatim>\<open>!\<close> is erased at run time.
  \<^verbatim>\<open>createBrowserClient\<close> belongs to an external package and is a parameter.
\<close>

definition createClient ::
  "(string option \<Rightarrow> string option \<Rightarrow> 'client) \<Rightarrow> string option \<Rightarrow> string option \<Rightarrow> 'client" where
  "createClient createBrowserClient NEXT_PUBLIC_SUPABASE_URL NEXT_PUBLIC_SUPABASE_ANON_KEY =
     (let supabaseUrl = NEXT_PUBLIC_SUPABASE_URL;
          supabaseAnonKey = NEXT_PUBLIC_SUPABASE_ANON_KEY;
          supabaseUrl =
            (case supabaseUrl of
               Some u \<Rightarrow> if u \<noteq> [] \<and> \<not> prefix ''http'' u then Some (''http://'' @ u) else Some u
             | None \<Rightarrow> None)
      in createBrowserClient supabaseUrl supabaseAnonKey)"

text \<open>
  The specification speaks of a URL that "lacks a scheme". In its words: a URL carries a
  scheme when it starts with a scheme name (a letter, then letters, digits, \<open>+\<close>, \<open>-\<close>
  or \<open>.\<close>) followed by \<open>://\<close>.
\<close>

definition is_letter :: "char \<Rightarrow> bool" where
  "is_letter c =
     (let n = (of_char c :: nat) in (65 \<le> n \<and> n \<le> 90) \<or> (97 \<le> n \<and> n \<le> 122))"

definition is_scheme_char :: "char \<Rightarrow> bool" where
  "is_scheme_char c =
     (let n = (of_char c :: nat)
      in is_letter c \<or> (48 \<le> n \<and> n \<le> 57) \<or> c = CHR ''+'' \<or> c = CHR ''-'' \<or> c = CHR ''.'')"

definition spec_has_scheme :: "string \<Rightarrow> bool" where
  "spec_has_scheme u =
     (case u of
        [] \<Rightarrow> False
      | c # cs \<Rightarrow> is_letter c \<and> take 3 (dropWhile is_scheme_char cs) = ''://'')"

section \<open>The API invocation wrapper (lib/api-client.ts)\<close>

text \<open>
  The source file declares the wrapper's option and result types; they are records with
  optional fields.
\<close>

record ErrorContext =
  operation :: "string option"
  resource :: "string option"
  silent :: "bool option"

record ApiClientOptions =
  showErrors :: "bool option"
  errorContext :: "ErrorContext option"
  timeout :: "nat option"

text \<open>
  Modelled from the spec: the kind of an \<^verbatim>\<open>ApiError\<close>. The source declares
  \<^verbatim>\<open>ApiError\<close> as an \<^verbatim>\<open>Error\<close> with optional fields and imports two handlers,
  \<^verbatim>\<open>handleNetworkError\<close> and \<^verbatim>\<open>handleApiError\<close>, whose bodies are missing; the
  specification (sections 4.2 and 7) tells a network error from a response error by the
  code path that produced it.
\<close>

datatype failure_kind = NetworkFailure | ResponseFailure

record ApiError =
  kind :: failure_kind
  error_message :: string
  error_status :: "jsnum option"

record 'a ApiResponse =
  data :: "'a option"
  error :: "ApiError option"
  success :: bool

text \<open>
  Modelled from the spec: what the transport does with one call. The server cannot be
  reached, or it never answers, or it answers after some time with a status and a body.
\<close>

datatype 'a transport = Unreachable | NoAnswer | Answer nat jsnum 'a

text \<open>
  Modelled from the spec: the timeout race of section 5, missing from the sources. The
  call times out when a timeout is configured and the timer resolves before the response
  does.
\<close>

definition timed_out :: "ApiClientOptions \<Rightarrow> 'a transport \<Rightarrow> bool" where
  "timed_out opts tr =
     (case timeout opts of
        None \<Rightarrow> False
      | Some d \<Rightarrow>
          (case tr of
             Unreachable \<Rightarrow> False
           | NoAnswer \<Rightarrow> True
           | Answer t _ _ \<Rightarrow> d < t))"

text \<open>
  Modelled from the spec: a notification is raised unless \<^verbatim>\<open>showErrors\<close> is false
  or \<^verbatim>\<open>errorContext.silent\<close> is true (section 4.2); the body of the wrapper is
  missing from the sources.
\<close>

definition notification_wanted :: "ApiClientOptions \<Rightarrow> bool" where
  "notification_wanted opts =
     (showErrors opts \<noteq> Some False \<and>
      (case errorContext opts of None \<Rightarrow> True | Some c \<Rightarrow> silent c \<noteq> Some True))"

definition failed :: "ApiClientOptions \<Rightarrow> ApiError \<Rightarrow> 'a ApiResponse \<times> string list" where
  "failed opts e =
     (\<lparr>data = None, error = Some e, success = False\<rparr>,
      if notification_wanted opts then [error_message e] else [])"

definition is_success_status :: "jsnum \<Rightarrow> bool" where
  "is_success_status st = (case st of Finite q \<Rightarrow> 200 \<le> q \<and> q < 300 | _ \<Rightarrow> False)"

text \<open>
  Modelled from the spec: the wrapper \<^verbatim>\<open>invoke(request, options)\<close> of section 4.2,
  whose body is missing from the sources. It returns the result and the notifications it
  raised; \<open>None\<close> when the call never settles (no answer and no timeout). The text of a
  network error is not given by the specification and is a parameter. A non-success
  status is classified by the status table of the classifier.
\<close>

definition invoke ::
  "string \<Rightarrow> ApiClientOptions \<Rightarrow> 'a transport \<Rightarrow> ('a ApiResponse \<times> string list) option" where
  "invoke network_text opts tr =
     (if timed_out opts tr then
        Some (failed opts
          \<lparr>kind = NetworkFailure, error_message = network_text, error_status = None\<rparr>)
      else
        (case tr of
           Unreachable \<Rightarrow>
             Some (failed opts
               \<lparr>kind = NetworkFailure, error_message = network_text, error_status = None\<rparr>)
         | NoAnswer \<Rightarrow> None
         | Answer t st body \<Rightarrow>
             if is_success_status st then
               Some (\<lparr>data = Some body, error = None, success = True\<rparr>, [])
             else
               Some (failed opts
                 \<lparr>kind = ResponseFailure, error_message = getStatusMessage (JNum st),
                  error_status = Some st\<rparr>)))"

section \<open>The status table as the specification gives it\<close>

definition spec_status_table :: "(rat \<times> string) list" where
  "spec_status_table =
     [(400, ''Invalid request. Please check your input and try again.''),
      (401, ''Authentication required. Please sign in again.''),
      (403, ''Access denied. You don't have permission to perform this action.''),
      (404, ''The requested resource was not found.''),
      (408, ''Request timeout. Please try again.''),
      (409, ''Conflict detected. The resource may have been modified by another user.''),
      (422, ''Invalid data provided. Please check your input.''),
      (429, ''Too many requests. Please wait a moment and try again.''),
      (500, ''Server error. Our team has been notified.''),
      (502, ''Service temporarily unavailable. Please try again in a moment.''),
      (503, ''Service maintenance in progress. Please try again later.''),
      (504, ''Request timeout. The server took too long to respond.'')]"

definition spec_default_status_message :: string where
  "spec_default_status_message = ''An unexpected error occurred. Please try again.''"

definition spec_status_message :: "jsnum \<Rightarrow> string" where
  "spec_status_message n =
     (case n of
        Finite q \<Rightarrow>
          (case map_of spec_status_table q of
             Some m \<Rightarrow> m
           | None \<Rightarrow> spec_default_status_message)
      | _ \<Rightarrow> spec_default_status_message)"

section \<open>Inputs whose message fields are text\<close>

text \<open>
  The classifier returns some fields verbatim: \<^verbatim>\<open>message\<close>,
  \<^verbatim>\<open>detail.message\<close>, \<^verbatim>\<open>error\<close> (when it is a string) and
  \<^verbatim>\<open>error.message\<close>. The TypeScript declarations give each of the message fields
  the type \<^verbatim>\<open>string\<close> (optional outside \<^verbatim>\<open>Error\<close>); the predicate below
  says that a run-time value respects them.
\<close>

fun is_text :: "jsval \<Rightarrow> bool" where
  "is_text (JStr _) = True"
| "is_text _ = False"

definition optional_text :: "jsval \<Rightarrow> bool" where
  "optional_text x = (x = JUndefined \<or> is_text x)"

definition message_fields_are_text :: "jsval \<Rightarrow> bool" where
  "message_fields_are_text v =
     ((if instanceof_Error v then is_text (lookup_prop v ''message'')
       else optional_text (optget v ''message'')) \<and>
      optional_text (optget (optget v ''detail'') ''message'') \<and>
      optional_text (optget (optget v ''error'') ''message''))"

section \<open>Basic facts\<close>

lemma truthy_not_nullish: "truthy v \<Longrightarrow> \<not> nullish v"
  by (cases v) simp_all

lemma truthy_optget_get: "truthy (optget v k) \<Longrightarrow> get v k = Inr (optget v k)"
  by (cases "nullish v") (simp_all add: get_def optget_def)

lemma getStatusMessage_table: "getStatusMessage (JNum n) = spec_status_message n"
  by (cases n)
    (simp_all add: getStatusMessage_def spec_status_message_def spec_status_table_def
      spec_default_status_message_def)

lemma get_not_nullish: "\<not> nullish v \<Longrightarrow> get v k = Inr (lookup_prop v k)"
  by (simp add: get_def)

lemma optget_not_nullish: "\<not> nullish v \<Longrightarrow> optget v k = lookup_prop v k"
  by (simp add: optget_def)

lemma instanceof_Error_not_nullish: "instanceof_Error v \<Longrightarrow> \<not> nullish v"
  by (cases v) simp_all

lemma instanceof_BillingError_Error: "instanceof_BillingError v \<Longrightarrow> instanceof_Error v"
  by (cases v) simp_all

lemma thenE_Inr: "thenE (Inr x) f = f x"
  by (simp add: thenE_def)

lemma thenE_Inl: "thenE (Inl e) f = Inl e"
  by (simp add: thenE_def)

text \<open>The classifier, rule by rule, with every read resolved.\<close>

lemma rule1:
  assumes "instanceof_BillingError v"
  shows "extractErrorMessage v =
    Inr (if truthy (optget (lookup_prop v ''detail'') ''message'')
         then optget (lookup_prop v ''detail'') ''message''
         else if truthy (lookup_prop v ''message'') then lookup_prop v ''message''
         else JStr ''Billing issue detected'')"
proof -
  have "\<not> nullish v"
    using assms instanceof_BillingError_Error instanceof_Error_not_nullish by blast
  then show ?thesis
    using assms by (simp add: extractErrorMessage_def get_not_nullish thenE_Inr)
qed

lemma rule2:
  assumes "instanceof_Error v" and "\<not> instanceof_BillingError v"
  shows "extractErrorMessage v = Inr (lookup_prop v ''message'')"
  using assms instanceof_Error_not_nullish [OF assms(1)]
  by (simp add: extractErrorMessage_def get_not_nullish)

lemma rule3:
  assumes "\<not> instanceof_Error v" and "truthy (optget v ''response'')"
  shows "extractErrorMessage v =
    Inr (JStr (getStatusMessage (lookup_prop (optget v ''response'') ''status'')))"
proof -
  have "\<not> instanceof_BillingError v"
    using assms(1) instanceof_BillingError_Error by blast
  moreover have "get v ''response'' = Inr (optget v ''response'')"
    using assms(2) by (rule truthy_optget_get)
  moreover have "get (optget v ''response'') ''status'' =
      Inr (lookup_prop (optget v ''response'') ''status'')"
    using assms(2) by (simp add: get_not_nullish truthy_not_nullish)
  ultimately show ?thesis
    using assms by (simp add: extractErrorMessage_def thenE_Inr)
qed

lemma rule4:
  assumes "\<not> instanceof_Error v" and "\<not> truthy (optget v ''response'')"
    and "truthy (optget v ''status'')"
  shows "extractErrorMessage v = Inr (JStr (getStatusMessage (optget v ''status'')))"
proof -
  have "\<not> instanceof_BillingError v"
    using assms(1) instanceof_BillingError_Error by blast
  moreover have "get v ''status'' = Inr (optget v ''status'')"
    using assms(3) by (rule truthy_optget_get)
  ultimately show ?thesis
    using assms by (simp add: extractErrorMessage_def thenE_Inr)
qed

lemma typeof_string: "typeof v = ''string'' \<longleftrightarrow> (\<exists>s. v = JStr s)"
  by (cases v) simp_all

lemma rule5: "extractErrorMessage (JStr s) = Inr (JStr s)"
  by (simp add: extractErrorMessage_def optget_def)

lemma rule6:
  assumes "\<not> instanceof_Error v" and "\<not> truthy (optget v ''response'')"
    and "\<not> truthy (optget v ''status'')" and "typeof v \<noteq> ''string''"
    and "truthy (optget v ''message'')"
  shows "extractErrorMessage v = Inr (optget v ''message'')"
proof -
  have "\<not> instanceof_BillingError v"
    using assms(1) instanceof_BillingError_Error by blast
  moreover have "get v ''message'' = Inr (optget v ''message'')"
    using assms(5) by (rule truthy_optget_get)
  ultimately show ?thesis
    using assms by (simp add: extractErrorMessage_def)
qed

lemma rule7:
  assumes "\<not> instanceof_Error v" and "\<not> truthy (optget v ''response'')"
    and "\<not> truthy (optget v ''status'')" and "typeof v \<noteq> ''string''"
    and "\<not> truthy (optget v ''message'')" and "truthy (optget v ''error'')"
  shows "extractErrorMessage v =
    Inr (if typeof (optget v ''error'') = ''string'' then optget v ''error''
         else if truthy (lookup_prop (optget v ''error'') ''message'')
         then lookup_prop (optget v ''error'') ''message''
         else JStr ''Unknown error'')"
proof -
  have "\<not> instanceof_BillingError v"
    using assms(1) instanceof_BillingError_Error by blast
  moreover have "get v ''error'' = Inr (optget v ''error'')"
    using assms(6) by (rule truthy_optget_get)
  moreover have "get (optget v ''error'') ''message'' =
      Inr (lookup_prop (optget v ''error'') ''message'')"
    using assms(6) by (simp add: get_not_nullish truthy_not_nullish)
  ultimately show ?thesis
    using assms by (simp add: extractErrorMessage_def thenE_Inr)
qed

lemma rule8:
  assumes "\<not> instanceof_Error v" and "\<not> truthy (optget v ''response'')"
    and "\<not> truthy (optget v ''status'')" and "typeof v \<noteq> ''string''"
    and "\<not> truthy (optget v ''message'')" and "\<not> truthy (optget v ''error'')"
  shows "extractErrorMessage v = Inr (JStr ''An unexpected error occurred'')"
proof -
  have "\<not> instanceof_BillingError v"
    using assms(1) instanceof_BillingError_Error by blast
  then show ?thesis
    using assms by (simp add: extractErrorMessage_def)
qed

text \<open>Two facts about results, and the case analysis that follows the rules.\<close>

lemma getStatusMessage_nonempty: "getStatusMessage st \<noteq> []"
  by (simp add: getStatusMessage_def)

lemma truthy_not_empty_text: "truthy r \<Longrightarrow> r \<noteq> JStr []"
  by auto

lemma classify_rules [case_names billing generic response status str message errfield fallback]:
  obtains "instanceof_BillingError v"
  | "instanceof_Error v" and "\<not> instanceof_BillingError v"
  | "\<not> instanceof_Error v" and "truthy (optget v ''response'')"
  | "\<not> instanceof_Error v" and "\<not> truthy (optget v ''response'')"
      and "truthy (optget v ''status'')"
  | s where "v = JStr s"
  | "\<not> instanceof_Error v" and "\<not> truthy (optget v ''response'')"
      and "\<not> truthy (optget v ''status'')" and "typeof v \<noteq> ''string''"
      and "truthy (optget v ''message'')"
  | "\<not> instanceof_Error v" and "\<not> truthy (optget v ''response'')"
      and "\<not> truthy (optget v ''status'')" and "typeof v \<noteq> ''string''"
      and "\<not> truthy (optget v ''message'')" and "truthy (optget v ''error'')"
  | "\<not> instanceof_Error v" and "\<not> truthy (optget v ''response'')"
      and "\<not> truthy (optget v ''status'')" and "typeof v \<noteq> ''string''"
      and "\<not> truthy (optget v ''message'')" and "\<not> truthy (optget v ''error'')"
  using typeof_string by blast

lemma classify_total_aux: "\<exists>r. extractErrorMessage v = Inr r"
proof (cases v rule: classify_rules)
  case billing
  then show ?thesis by (simp add: rule1)
next
  case generic
  then show ?thesis by (simp add: rule2)
next
  case response
  then show ?thesis by (simp add: rule3)
next
  case status
  then show ?thesis by (simp add: rule4)
next
  case (str s)
  then show ?thesis by (simp add: rule5)
next
  case message
  then show ?thesis by (simp add: rule6)
next
  case errfield
  then show ?thesis by (simp add: rule7)
next
  case fallback
  then show ?thesis by (simp add: rule8)
qed

lemma is_text_iff: "is_text x \<longleftrightarrow> (\<exists>s. x = JStr s)"
  by (cases x) simp_all

lemma optional_text_truthy: "optional_text x \<Longrightarrow> truthy x \<Longrightarrow> \<exists>s. x = JStr s \<and> s \<noteq> []"
  by (cases x) (simp_all add: optional_text_def)

lemma text_result_aux:
  assumes "message_fields_are_text v"
  shows "\<exists>s. extractErrorMessage v = Inr (JStr s)"
proof (cases v rule: classify_rules)
  case billing
  then have e: "instanceof_Error v" and nn: "\<not> nullish v"
    using instanceof_BillingError_Error instanceof_Error_not_nullish by blast+
  have d: "optional_text (optget (lookup_prop v ''detail'') ''message'')"
    using assms nn by (simp add: message_fields_are_text_def optget_not_nullish)
  have m: "is_text (lookup_prop v ''message'')"
    using assms e by (simp add: message_fields_are_text_def)
  show ?thesis
    using optional_text_truthy [OF d] m
    by (auto simp: rule1 [OF billing] is_text_iff)
next
  case generic
  then show ?thesis
    using assms by (simp add: rule2 message_fields_are_text_def is_text_iff)
next
  case response
  then show ?thesis by (simp add: rule3)
next
  case status
  then show ?thesis by (simp add: rule4)
next
  case (str s)
  then show ?thesis by (simp add: rule5)
next
  case message
  then have "optional_text (optget v ''message'')"
    using assms by (simp add: message_fields_are_text_def)
  from optional_text_truthy [OF this] message show ?thesis
    by (auto simp: rule6)
next
  case errfield
  have nn: "\<not> nullish v"
    using errfield(6) by (auto simp: optget_def)
  have "optional_text (lookup_prop (optget v ''error'') ''message'')"
    using assms errfield(6) by (simp add: message_fields_are_text_def optget_not_nullish truthy_not_nullish)
  from optional_text_truthy [OF this] show ?thesis
    by (auto simp: rule7 [OF errfield] typeof_string)
next
  case fallback
  then show ?thesis by (simp add: rule8)
qed

lemma empty_result_aux:
  "extractErrorMessage v = Inr (JStr []) \<longleftrightarrow>
     v = JStr [] \<or>
     (instanceof_Error v \<and> \<not> instanceof_BillingError v \<and> lookup_prop v ''message'' = JStr [])"
proof (cases v rule: classify_rules)
  case billing
  then show ?thesis
    by (cases v) (auto simp: rule1 dest: truthy_not_empty_text)
next
  case generic
  then show ?thesis by (cases v) (auto simp: rule2)
next
  case response
  then show ?thesis
    by (cases v) (auto simp: rule3 getStatusMessage_nonempty optget_def)
next
  case status
  then show ?thesis
    by (cases v) (auto simp: rule4 getStatusMessage_nonempty optget_def)
next
  case (str s)
  then show ?thesis by (auto simp: rule5)
next
  case message
  then show ?thesis
    by (cases v) (auto simp: rule6 dest: truthy_not_empty_text)
next
  case errfield
  then show ?thesis
    by (cases v) (auto simp: rule7 dest: truthy_not_empty_text)
next
  case fallback
  then show ?thesis by (cases v) (auto simp: rule8)
qed

lemma spec_status_table_distinct: "distinct (map fst spec_status_table)"
  by (simp add: spec_status_table_def)

lemma spec_status_message_listed: "spec_status_message (Finite q) = m" if "(q, m) \<in> set spec_status_table"
  using that spec_status_table_distinct by (simp add: spec_status_message_def)

lemma spec_status_message_unlisted: "spec_status_message n = spec_default_status_message"
    if "\<forall>q' m'. (q', m') \<in> set spec_status_table \<longrightarrow> n \<noteq> Finite q'"
proof (cases n)
  case (Finite x)
  then have "x \<notin> fst ` set spec_status_table"
    using that by force
  then have "map_of spec_status_table x = None"
    by (simp add: map_of_eq_None_iff)
  then show ?thesis
    using Finite by (simp add: spec_status_message_def)
qed (simp_all add: spec_status_message_def)


text \<open>The equations that evaluate the classifier on a concrete value.\<close>

lemmas classify_eval =
  extractErrorMessage_def get_def optget_def proto_prop_def thenE_def

lemma prefix_http_scheme: "prefix ''http://'' u \<or> prefix ''https://'' u \<Longrightarrow> prefix ''http'' u"
  by (auto simp: prefix_def)

section \<open>The claims\<close>

text \<open>
  C1. A value that is not an \<^verbatim>\<open>Error\<close> instance and carries an embedded response
  object with a numeric status (the specification's \<^verbatim>\<open>{response: {status}}\<close>) is
  classified by the status table: a status listed in the table gives exactly the table's
  message, and every status that is not listed gives the table's default message.
\<close>

theorem status_table_lookup:
  assumes "\<not> instanceof_Error v"
    and "optget v ''response'' = JObj p rs"
    and "lookup_prop (JObj p rs) ''status'' = JNum n"
  shows "((q, m) \<in> set spec_status_table \<and> n = Finite q
            \<longrightarrow> extractErrorMessage v = Inr (JStr m)) \<and>
         ((\<forall>q' m'. (q', m') \<in> set spec_status_table \<longrightarrow> n \<noteq> Finite q')
            \<longrightarrow> extractErrorMessage v = Inr (JStr spec_default_status_message))"
proof -
  have "extractErrorMessage v = Inr (JStr (spec_status_message n))"
    using assms by (simp add: rule3 getStatusMessage_table)
  then show ?thesis
    using spec_status_message_listed [of q m] spec_status_message_unlisted [of n] by simp
qed

theorem status_table_lookup_witness:
  "extractErrorMessage
     (JObj ObjectProto [(''response'', JObj ObjectProto [(''status'', JNum (Finite 404))])])
     = Inr (JStr ''The requested resource was not found.'') \<and>
   extractErrorMessage
     (JObj ObjectProto [(''response'', JObj ObjectProto [(''status'', JNum (Finite 418))])])
     = Inr (JStr ''An unexpected error occurred. Please try again.'')"
proof -
  let ?v = "\<lambda>q. JObj ObjectProto [(''response'', JObj ObjectProto [(''status'', JNum (Finite q))])]"
  have a: "\<not> instanceof_Error (?v q)" for q by simp
  have b: "optget (?v q) ''response'' = JObj ObjectProto [(''status'', JNum (Finite q))]" for q
    by (simp add: optget_def)
  have c: "lookup_prop (JObj ObjectProto [(''status'', JNum (Finite q))]) ''status'' = JNum (Finite q)"
    for q by simp
  have d: "(404, ''The requested resource was not found.'') \<in> set spec_status_table"
    by (simp add: spec_status_table_def)
  have e: "\<forall>q' m'. (q', m') \<in> set spec_status_table \<longrightarrow> Finite 418 \<noteq> Finite q'"
    by (simp add: spec_status_table_def)
  have "extractErrorMessage (?v 404) = Inr (JStr ''The requested resource was not found.'')"
    using status_table_lookup [where q = 404 and m = "''The requested resource was not found.''", OF a b c] d
    by simp
  moreover have "extractErrorMessage (?v 418) = Inr (JStr spec_default_status_message)"
    using status_table_lookup [where n = "Finite 418", OF a b c] e
    by simp
  ultimately show ?thesis
    by (simp add: spec_default_status_message_def)
qed

text \<open>
  C2, as amended. The classifier returns the empty string exactly for the empty string
  itself and for an \<^verbatim>\<open>Error\<close> instance (not a \<^verbatim>\<open>BillingError\<close>) whose message is
  the empty string. For every other input whose message fields are text it returns a
  non-empty string.
\<close>

theorem classify_empty_result:
  "(extractErrorMessage v = Inr (JStr []) \<longleftrightarrow>
      v = JStr [] \<or>
      (instanceof_Error v \<and> \<not> instanceof_BillingError v \<and>
       lookup_prop v ''message'' = JStr [])) \<and>
   (message_fields_are_text v \<and> v \<noteq> JStr [] \<and>
    \<not> (instanceof_Error v \<and> \<not> instanceof_BillingError v \<and>
       lookup_prop v ''message'' = JStr [])
      \<longrightarrow> (\<exists>s. extractErrorMessage v = Inr (JStr s) \<and> s \<noteq> []))"
  using empty_result_aux [of v] text_result_aux [of v] by auto

theorem classify_empty_result_witness:
  "extractErrorMessage (JObj ObjectProto [(''message'', JStr ''boom'')]) \<noteq> Inr (JStr []) \<and>
   (\<exists>s. extractErrorMessage (JObj ObjectProto [(''message'', JStr ''boom'')]) = Inr (JStr s) \<and>
      s \<noteq> [])"
proof -
  let ?v = "JObj ObjectProto [(''message'', JStr ''boom'')]"
  have "message_fields_are_text ?v"
    by (simp add: message_fields_are_text_def optional_text_def optget_def proto_prop_def)
  moreover have "?v \<noteq> JStr []" and "\<not> instanceof_Error ?v"
    by simp_all
  ultimately show ?thesis
    using classify_empty_result [of ?v] by simp
qed

theorem classify_empty_string_counterexample:
  "extractErrorMessage (JStr []) = Inr (JStr []) \<and>
   extractErrorMessage (JObj ErrorProto [(''message'', JStr [])]) = Inr (JStr [])"
  by (simp add: classify_eval)

text \<open>
  C3, as amended. For every \<^verbatim>\<open>BillingError\<close> the classifier returns the detail
  message when it is truthy (a non-empty string); when the detail message is absent or
  empty, the error's own message when that is truthy; and when both are absent or empty,
  the literal \<^verbatim>\<open>Billing issue detected\<close>.
\<close>

theorem billing_error_message:
  assumes "instanceof_BillingError v"
  shows "(truthy (optget (lookup_prop v ''detail'') ''message'')
            \<longrightarrow> extractErrorMessage v = Inr (optget (lookup_prop v ''detail'') ''message'')) \<and>
         (\<not> truthy (optget (lookup_prop v ''detail'') ''message'') \<and>
          truthy (lookup_prop v ''message'')
            \<longrightarrow> extractErrorMessage v = Inr (lookup_prop v ''message'')) \<and>
         (\<not> truthy (optget (lookup_prop v ''detail'') ''message'') \<and>
          \<not> truthy (lookup_prop v ''message'')
            \<longrightarrow> extractErrorMessage v = Inr (JStr ''Billing issue detected''))"
  using assms by (simp add: rule1)

theorem billing_error_message_witness:
  "extractErrorMessage
     (JObj BillingErrorProto
        [(''detail'', JObj ObjectProto [(''message'', JStr ''X'')]), (''message'', JStr ''Y'')])
     = Inr (JStr ''X'') \<and>
   extractErrorMessage (JObj BillingErrorProto [(''detail'', JObj ObjectProto []), (''message'', JStr ''Y'')])
     = Inr (JStr ''Y'') \<and>
   extractErrorMessage (JObj BillingErrorProto [(''detail'', JObj ObjectProto [])])
     = Inr (JStr ''Billing issue detected'')"
proof -
  let ?a = "JObj BillingErrorProto
        [(''detail'', JObj ObjectProto [(''message'', JStr ''X'')]), (''message'', JStr ''Y'')]"
  let ?b = "JObj BillingErrorProto [(''detail'', JObj ObjectProto []), (''message'', JStr ''Y'')]"
  let ?c = "JObj BillingErrorProto [(''detail'', JObj ObjectProto [])]"
  have "instanceof_BillingError ?a" and "instanceof_BillingError ?b"
    and "instanceof_BillingError ?c"
    by simp_all
  from billing_error_message [OF this(1)] billing_error_message [OF this(2)]
    billing_error_message [OF this(3)]
  show ?thesis
    by (simp add: optget_def proto_prop_def)
qed

theorem billing_empty_detail_counterexample:
  "new_BillingError (\<lambda>n. ''402'') (\<lambda>x. Inl TypeError)
     (JNum (Finite 402)) (JObj ObjectProto [(''message'', JStr [])]) (JStr ''Y'')
     = Inr (JObj BillingErrorProto
         [(''detail'', JObj ObjectProto [(''message'', JStr [])]),
          (''status'', JNum (Finite 402)), (''name'', JStr ''BillingError''),
          (''message'', JStr ''Y'')]) \<and>
   extractErrorMessage
     (JObj BillingErrorProto
         [(''detail'', JObj ObjectProto [(''message'', JStr [])]),
          (''status'', JNum (Finite 402)), (''name'', JStr ''BillingError''),
          (''message'', JStr ''Y'')])
     = Inr (JStr ''Y'')"
  by (simp add: new_BillingError_def Error_init_def ToString_def assign_def classify_eval)

text \<open>
  C4, as amended. The classifier is total and never throws: for every input value,
  \<^verbatim>\<open>null\<close> and \<^verbatim>\<open>undefined\<close> included, evaluation completes normally and produces
  a value. The value is a string whenever the message fields the classifier reads are
  text; a message field of another type is returned as it is.
\<close>

theorem classify_total:
  "(\<exists>r. extractErrorMessage v = Inr r) \<and>
   (\<exists>s. extractErrorMessage JNull = Inr (JStr s)) \<and>
   (\<exists>s. extractErrorMessage JUndefined = Inr (JStr s)) \<and>
   (message_fields_are_text v \<longrightarrow> (\<exists>s. extractErrorMessage v = Inr (JStr s)))"
proof -
  have "message_fields_are_text JNull" and "message_fields_are_text JUndefined"
    by (simp_all add: message_fields_are_text_def optional_text_def optget_def)
  then show ?thesis
    using classify_total_aux [of v] text_result_aux by simp
qed

theorem classify_total_witness:
  "\<exists>s. extractErrorMessage (JObj ObjectProto [(''error'', JStr ''oops'')]) = Inr (JStr s)"
proof -
  let ?v = "JObj ObjectProto [(''error'', JStr ''oops'')]"
  have "message_fields_are_text ?v"
    by (simp add: message_fields_are_text_def optional_text_def optget_def proto_prop_def)
  then show ?thesis
    using classify_total [of ?v] by simp
qed

theorem classify_non_string_counterexample:
  "extractErrorMessage (JObj ObjectProto [(''message'', JNum (Finite 42))])
     = Inr (JNum (Finite 42)) \<and>
   typeof (JNum (Finite 42)) \<noteq> ''string''"
  by (simp add: classify_eval)

text \<open>
  C5, as amended. For every value that reaches the rule for the \<^verbatim>\<open>error\<close> field (it
  matches no earlier rule): when the field is a non-empty text, the classifier returns
  it verbatim; when it is an object whose \<^verbatim>\<open>message\<close> is truthy, the classifier
  returns that message; for every other truthy \<^verbatim>\<open>error\<close> field (the empty object, for
  one) it returns \<^verbatim>\<open>Unknown error\<close>. An \<^verbatim>\<open>error\<close> field that is the empty text is
  treated as absent.
\<close>

theorem error_field_rule:
  assumes "\<not> instanceof_Error v" and "\<not> truthy (optget v ''response'')"
    and "\<not> truthy (optget v ''status'')" and "typeof v \<noteq> ''string''"
    and "\<not> truthy (optget v ''message'')"
  shows "(optget v ''error'' = JStr s \<and> s \<noteq> []
            \<longrightarrow> extractErrorMessage v = Inr (JStr s)) \<and>
         (optget v ''error'' = JObj p fs \<and> truthy (lookup_prop (JObj p fs) ''message'')
            \<longrightarrow> extractErrorMessage v = Inr (lookup_prop (JObj p fs) ''message'')) \<and>
         (truthy (optget v ''error'') \<and> typeof (optget v ''error'') \<noteq> ''string'' \<and>
          \<not> truthy (lookup_prop (optget v ''error'') ''message'')
            \<longrightarrow> extractErrorMessage v = Inr (JStr ''Unknown error'')) \<and>
         (optget v ''error'' = JStr []
            \<longrightarrow> extractErrorMessage v = Inr (JStr ''An unexpected error occurred''))"
proof (cases "truthy (optget v ''error'')")
  case True
  have "extractErrorMessage v =
    Inr (if typeof (optget v ''error'') = ''string'' then optget v ''error''
         else if truthy (lookup_prop (optget v ''error'') ''message'')
         then lookup_prop (optget v ''error'') ''message''
         else JStr ''Unknown error'')"
    using assms True by (rule rule7)
  then show ?thesis
    using True by auto
next
  case False
  have "extractErrorMessage v = Inr (JStr ''An unexpected error occurred'')"
    using assms False by (rule rule8)
  then show ?thesis
    using False by auto
qed

theorem error_field_rule_witness:
  "extractErrorMessage (JObj ObjectProto [(''error'', JStr ''oops'')]) = Inr (JStr ''oops'') \<and>
   extractErrorMessage (JObj ObjectProto [(''error'', JObj ObjectProto [(''message'', JStr ''oops2'')])])
     = Inr (JStr ''oops2'') \<and>
   extractErrorMessage (JObj ObjectProto [(''error'', JObj ObjectProto [])])
     = Inr (JStr ''Unknown error'')"
proof -
  let ?a = "JObj ObjectProto [(''error'', JStr ''oops'')]"
  let ?b = "JObj ObjectProto [(''error'', JObj ObjectProto [(''message'', JStr ''oops2'')])]"
  let ?c = "JObj ObjectProto [(''error'', JObj ObjectProto [])]"
  have pre: "\<not> instanceof_Error (JObj ObjectProto [(''error'', x)])"
    "\<not> truthy (optget (JObj ObjectProto [(''error'', x)]) ''response'')"
    "\<not> truthy (optget (JObj ObjectProto [(''error'', x)]) ''status'')"
    "typeof (JObj ObjectProto [(''error'', x)]) \<noteq> ''string''"
    "\<not> truthy (optget (JObj ObjectProto [(''error'', x)]) ''message'')" for x
    by (simp_all add: optget_def proto_prop_def)
  have "extractErrorMessage ?a = Inr (JStr ''oops'')"
    using error_field_rule [OF pre, where s = "''oops''"] by (simp add: optget_def)
  moreover have "extractErrorMessage ?b = Inr (JStr ''oops2'')"
    using error_field_rule [OF pre, where p = ObjectProto and fs = "[(''message'', JStr ''oops2'')]"]
    by (simp add: optget_def)
  moreover have "extractErrorMessage ?c = Inr (JStr ''Unknown error'')"
    using error_field_rule [OF pre, of "JObj ObjectProto []"]
    by (simp add: optget_def proto_prop_def)
  ultimately show ?thesis
    by simp
qed

theorem empty_error_field_counterexample:
  "lookup_prop (JObj ObjectProto [(''error'', JStr [])]) ''error'' = JStr [] \<and>
   extractErrorMessage (JObj ObjectProto [(''error'', JStr [])])
     = Inr (JStr ''An unexpected error occurred'') \<and>
   extractErrorMessage (JObj ObjectProto [(''error'', JObj ObjectProto [(''message'', JStr [])])])
     = Inr (JStr ''Unknown error'')"
  by (simp add: classify_eval)

text \<open>
  C6. The first matching rule wins. An \<^verbatim>\<open>Error\<close> instance that is not a
  \<^verbatim>\<open>BillingError\<close> and also carries a truthy \<^verbatim>\<open>response\<close> or \<^verbatim>\<open>status\<close> is
  classified by its message, returned verbatim; a plain object with the very same
  properties is classified by the status table.
\<close>

theorem generic_error_first:
  assumes "truthy (optget (JObj ErrorProto fs) ''response'') \<or>
           truthy (optget (JObj ErrorProto fs) ''status'')"
  shows "extractErrorMessage (JObj ErrorProto fs) = Inr (lookup_prop (JObj ErrorProto fs) ''message'') \<and>
         (\<exists>st. extractErrorMessage (JObj ObjectProto fs) = Inr (JStr (getStatusMessage st)))"
proof -
  have same: "optget (JObj ObjectProto fs) ''response'' = optget (JObj ErrorProto fs) ''response''"
    "optget (JObj ObjectProto fs) ''status'' = optget (JObj ErrorProto fs) ''status''"
    by (simp_all add: optget_def proto_prop_def split: option.split)
  have plain: "\<not> instanceof_Error (JObj ObjectProto fs)"
    by simp
  have "\<exists>st. extractErrorMessage (JObj ObjectProto fs) = Inr (JStr (getStatusMessage st))"
  proof (cases "truthy (optget (JObj ObjectProto fs) ''response'')")
    case True
    with plain show ?thesis by (auto simp: rule3)
  next
    case False
    with assms same have "truthy (optget (JObj ObjectProto fs) ''status'')" by simp
    with plain False show ?thesis by (auto simp: rule4)
  qed
  moreover have "extractErrorMessage (JObj ErrorProto fs) = Inr (lookup_prop (JObj ErrorProto fs) ''message'')"
    by (simp add: rule2)
  ultimately show ?thesis by simp
qed

theorem generic_error_first_witness:
  "extractErrorMessage
     (JObj ErrorProto [(''message'', JStr ''boom''), (''status'', JNum (Finite 404)),
        (''response'', JObj ObjectProto [(''status'', JNum (Finite 404))])])
     = Inr (JStr ''boom'') \<and>
   extractErrorMessage
     (JObj ObjectProto [(''message'', JStr ''boom''), (''status'', JNum (Finite 404)),
        (''response'', JObj ObjectProto [(''status'', JNum (Finite 404))])])
     = Inr (JStr ''The requested resource was not found.'')"
proof -
  let ?fs = "[(''message'', JStr ''boom''), (''status'', JNum (Finite 404)),
        (''response'', JObj ObjectProto [(''status'', JNum (Finite 404))])]"
  have "truthy (optget (JObj ErrorProto ?fs) ''response'') \<or>
        truthy (optget (JObj ErrorProto ?fs) ''status'')"
    by (simp add: optget_def)
  from generic_error_first [OF this]
  have "extractErrorMessage (JObj ErrorProto ?fs) = Inr (JStr ''boom'')"
    by simp
  moreover have "extractErrorMessage (JObj ObjectProto ?fs)
      = Inr (JStr ''The requested resource was not found.'')"
    by (simp add: classify_eval getStatusMessage_def)
  ultimately show ?thesis by simp
qed

text \<open>
  C7. A call of the API wrapper that times out returns the failure branch, with
  \<^verbatim>\<open>success\<close> false and a network error, never a response error, whatever status the
  late response carries.
\<close>

theorem timeout_is_network_failure:
  assumes "timed_out opts tr"
  shows "\<exists>e ns. invoke network_text opts tr
            = Some (\<lparr>data = None, error = Some e, success = False\<rparr>, ns) \<and>
          kind e = NetworkFailure \<and> kind e \<noteq> ResponseFailure"
  using assms by (simp add: invoke_def failed_def)

theorem timeout_is_network_failure_witness:
  "(\<exists>e ns. invoke ''Request timed out''
       \<lparr>showErrors = None, errorContext = None, timeout = Some 1000\<rparr>
       (Answer 5000 (Finite 500) ())
      = Some (\<lparr>data = None, error = Some e, success = False\<rparr>, ns) \<and>
      kind e = NetworkFailure \<and> kind e \<noteq> ResponseFailure) \<and>
   (\<exists>e ns. invoke ''Request timed out''
       \<lparr>showErrors = None, errorContext = None, timeout = None\<rparr>
       (Answer 5000 (Finite 500) ())
      = Some (\<lparr>data = None, error = Some e, success = False\<rparr>, ns) \<and>
      kind e = ResponseFailure)"
proof -
  have "timed_out \<lparr>showErrors = None, errorContext = None, timeout = Some 1000\<rparr>
      (Answer 5000 (Finite 500) ())"
    by (simp add: timed_out_def)
  from timeout_is_network_failure [OF this, of "''Request timed out''"]
  show ?thesis
    by (simp add: invoke_def failed_def timed_out_def is_success_status_def)
qed

text \<open>
  C8, as amended. The factory tests the first four characters of the URL, not its
  scheme: a non-empty URL that does not start with \<^verbatim>\<open>http\<close> gets \<^verbatim>\<open>http://\<close>
  prefixed before the client is constructed; a URL that starts with \<^verbatim>\<open>http\<close> (every
  URL with the scheme \<^verbatim>\<open>http://\<close> or \<^verbatim>\<open>https://\<close> among them), the empty URL and a
  missing URL are passed on unchanged. The key is passed on unchanged.
\<close>

theorem createClient_url:
  "(u \<noteq> [] \<and> \<not> prefix ''http'' u
      \<longrightarrow> createClient cbc (Some u) k = cbc (Some (''http://'' @ u)) k) \<and>
   (u = [] \<or> prefix ''http'' u \<longrightarrow> createClient cbc (Some u) k = cbc (Some u) k) \<and>
   (prefix ''http://'' u \<or> prefix ''https://'' u
      \<longrightarrow> createClient cbc (Some u) k = cbc (Some u) k) \<and>
   createClient cbc None k = cbc None k"
  using prefix_http_scheme [of u] by (auto simp: createClient_def)

theorem createClient_url_witness:
  "createClient Pair (Some ''localhost:54321'') (Some ''anon'')
     = (Some ''http://localhost:54321'', Some ''anon'') \<and>
   createClient Pair (Some ''https://x.supabase.co'') (Some ''anon'')
     = (Some ''https://x.supabase.co'', Some ''anon'')"
proof -
  have "''localhost:54321'' \<noteq> [] \<and> \<not> prefix ''http'' ''localhost:54321''"
    by simp
  moreover have "prefix ''https://'' ''https://x.supabase.co''"
    by simp
  ultimately show ?thesis
    using createClient_url [of "''localhost:54321''" Pair "Some ''anon''"]
      createClient_url [of "''https://x.supabase.co''" Pair "Some ''anon''"]
    by simp
qed

theorem createClient_scheme_counterexample:
  "\<not> spec_has_scheme ''httpbin.org'' \<and>
   createClient Pair (Some ''httpbin.org'') (Some ''anon'') = (Some ''httpbin.org'', Some ''anon'') \<and>
   spec_has_scheme ''ws://localhost:54321'' \<and>
   createClient Pair (Some ''ws://localhost:54321'') (Some ''anon'')
     = (Some ''http://ws://localhost:54321'', Some ''anon'')"
  by (simp add: spec_has_scheme_def is_letter_def is_scheme_char_def createClient_def)

text \<open>
  C9. Every \<^verbatim>\<open>BillingError\<close> that the constructor produces from arguments of its
  declared types (a number, an object whose \<^verbatim>\<open>message\<close> is a string or absent, an
  optional string) has a non-empty string as its message and the name
  \<^verbatim>\<open>BillingError\<close>; when the message argument and \<^verbatim>\<open>detail.message\<close> are both
  absent or empty, the message is \<^verbatim>\<open>Billing Error: \<close> followed by the status.
\<close>

theorem new_BillingError_message:
  assumes "optional_text msg"
    and "\<not> nullish detail"
    and "optional_text (lookup_prop detail ''message'')"
  shows "\<exists>fs m. new_BillingError num_str other_str (JNum n) detail msg
            = Inr (JObj BillingErrorProto fs) \<and>
          lookup_prop (JObj BillingErrorProto fs) ''message'' = JStr m \<and> m \<noteq> [] \<and>
          lookup_prop (JObj BillingErrorProto fs) ''name'' = JStr ''BillingError'' \<and>
          (\<not> truthy msg \<and> \<not> truthy (lookup_prop detail ''message'')
             \<longrightarrow> m = ''Billing Error: '' @ num_str n)"
proof (cases "truthy msg")
  case True
  with assms(1) obtain s where "msg = JStr s" and "s \<noteq> []"
    using optional_text_truthy by blast
  then show ?thesis
    by (simp add: new_BillingError_def Error_init_def ToString_def assign_def thenE_def)
next
  case no_msg: False
  show ?thesis
  proof (cases "truthy (lookup_prop detail ''message'')")
    case True
    with assms(3) obtain s where "lookup_prop detail ''message'' = JStr s" and "s \<noteq> []"
      using optional_text_truthy by blast
    then show ?thesis
      using no_msg assms(2)
      by (simp add: new_BillingError_def Error_init_def ToString_def assign_def thenE_def
          get_def)
  next
    case False
    then show ?thesis
      using no_msg assms(2)
      by (simp add: new_BillingError_def Error_init_def ToString_def assign_def thenE_def
          get_def)
  qed
qed

theorem new_BillingError_message_witness:
  "\<exists>fs. new_BillingError (\<lambda>n. ''402'') (\<lambda>x. Inl TypeError) (JNum (Finite 402))
       (JObj ObjectProto [(''message'', JStr [])]) JUndefined
     = Inr (JObj BillingErrorProto fs) \<and>
     lookup_prop (JObj BillingErrorProto fs) ''message'' = JStr ''Billing Error: 402'' \<and>
     lookup_prop (JObj BillingErrorProto fs) ''name'' = JStr ''BillingError''"
proof -
  have "optional_text JUndefined"
    and "\<not> nullish (JObj ObjectProto [(''message'', JStr [])])"
    and "optional_text (lookup_prop (JObj ObjectProto [(''message'', JStr [])]) ''message'')"
    by (simp_all add: optional_text_def)
  from new_BillingError_message [OF this, of "\<lambda>n. ''402''" "\<lambda>x. Inl TypeError" "Finite 402"]
  show ?thesis
    by auto
qed

text \<open>
  C10, as amended. The presence checks are truthiness checks. A plain object whose
  \<^verbatim>\<open>status\<close> is 0, whose \<^verbatim>\<open>message\<close> is the empty string or whose \<^verbatim>\<open>error\<close>
  is the empty string, and that matches no other rule (no field among
  \<^verbatim>\<open>response\<close>, \<^verbatim>\<open>status\<close>, \<^verbatim>\<open>message\<close> and \<^verbatim>\<open>error\<close> is truthy), gets the
  final default \<^verbatim>\<open>An unexpected error occurred\<close>.
\<close>

theorem falsy_fields_default:
  assumes "map_of fs ''status'' = Some (JNum (Finite 0)) \<or>
           map_of fs ''message'' = Some (JStr []) \<or>
           map_of fs ''error'' = Some (JStr [])"
    and "\<not> truthy (lookup_prop (JObj ObjectProto fs) ''response'')"
    and "\<not> truthy (lookup_prop (JObj ObjectProto fs) ''status'')"
    and "\<not> truthy (lookup_prop (JObj ObjectProto fs) ''message'')"
    and "\<not> truthy (lookup_prop (JObj ObjectProto fs) ''error'')"
  shows "extractErrorMessage (JObj ObjectProto fs) = Inr (JStr ''An unexpected error occurred'')"
  using assms(2-5) by (simp add: rule8 optget_def)

theorem falsy_fields_default_witness:
  "extractErrorMessage (JObj ObjectProto [(''status'', JNum (Finite 0))])
     = Inr (JStr ''An unexpected error occurred'') \<and>
   extractErrorMessage (JObj ObjectProto [(''message'', JStr [])])
     = Inr (JStr ''An unexpected error occurred'') \<and>
   extractErrorMessage (JObj ObjectProto [(''error'', JStr [])])
     = Inr (JStr ''An unexpected error occurred'')"
proof -
  have "extractErrorMessage (JObj ObjectProto [(''status'', JNum (Finite 0))])
     = Inr (JStr ''An unexpected error occurred'')"
    by (rule falsy_fields_default) (simp_all add: proto_prop_def)
  moreover have "extractErrorMessage (JObj ObjectProto [(''message'', JStr [])])
     = Inr (JStr ''An unexpected error occurred'')"
    by (rule falsy_fields_default) (simp_all add: proto_prop_def)
  moreover have "extractErrorMessage (JObj ObjectProto [(''error'', JStr [])])
     = Inr (JStr ''An unexpected error occurred'')"
    by (rule falsy_fields_default) (simp_all add: proto_prop_def)
  ultimately show ?thesis by simp
qed

theorem falsy_status_later_rule_counterexample:
  "map_of [(''status'', JNum (Finite 0)), (''message'', JStr ''m'')] ''status''
     = Some (JNum (Finite 0)) \<and>
   extractErrorMessage (JObj ObjectProto [(''status'', JNum (Finite 0)), (''message'', JStr ''m'')])
     = Inr (JStr ''m'') \<and>
   extractErrorMessage (JObj ObjectProto [(''message'', JStr []), (''error'', JStr ''e'')])
     = Inr (JStr ''e'')"
  by (simp add: classify_eval)

end
